theory Spec2Isabelle
  imports
    Complex_Main
    "HOL-Library.Multiset"
    "HOL-Library.Sublist"
    "HOL-Library.Char_ord"
    "HOL-Library.List_Lexorder"
begin

section \<open>The Airbnb Seattle dashboard (app.py)\<close>

text \<open>
  The dashboard is one straight-line script. It loads a table of listings, narrows it by
  the sidebar widgets, and hands the narrowed table to three KPI computations, a CSV
  export and six charts. This theory embeds the table, the filter block (lines 58-65),
  the export (line 69) with the reader of line 39, the KPI computations (lines 75-77)
  and the grouped means and chart calls of lines 85-86, 105-106 and 119-120.

  Numbers: the columns are float64 in pandas. A cell is a rational or \<open>None\<close> for NaN
  (a missing cell); comparisons and truncation are exact on both sides. A mean is a
  rounded double, which may overflow: it is a \<open>float64\<close> value, and the rounding
  arithmetic, numpy's argsort and the decimal text of a number are the library's, taken
  as the parameter \<open>L\<close> of the functions that reach them.
  Strings are byte strings (UTF-8), whose bytewise lexicographic order agrees with
  Python's order on code points. A table is the list of its rows in index order; the row
  labels themselves are not modelled (the export drops them, \<^verbatim>\<open>index=False\<close>).
\<close>

subsection \<open>Data model\<close>

text \<open>One row of the frame, with the columns the script reads.\<close>

record listing =
  name :: string
  neighbourhood_cleansed :: string
  room_type :: string
  price :: "rat option"
  host_is_superhost :: "bool option"
  review_score_avg :: "rat option"
  availability_365 :: "rat option"
  cancellation_policy :: string
  reviews_per_month :: "rat option"

type_synonym table = "listing list"

text \<open>What the sidebar widgets return (lines 53-56).\<close>

record criteria =
  neighborhoods :: "string list"
  room_types :: "string list"
  min_price :: int
  max_price :: int
  superhost_filter :: bool

subsection \<open>Column predicates\<close>

text \<open>\<^verbatim>\<open>Series.isin(values)\<close>, row by row.\<close>

definition isin :: "string \<Rightarrow> string list \<Rightarrow> bool" where
  "isin v values \<longleftrightarrow> v \<in> set values"

text \<open>\<^verbatim>\<open>col >= n\<close> and \<^verbatim>\<open>col <= n\<close> for an integer \<open>n\<close>: NaN compares false.\<close>

definition ge :: "rat option \<Rightarrow> int \<Rightarrow> bool" where
  "ge v n = (case v of None \<Rightarrow> False | Some x \<Rightarrow> of_int n \<le> x)"

definition le :: "rat option \<Rightarrow> int \<Rightarrow> bool" where
  "le v n = (case v of None \<Rightarrow> False | Some x \<Rightarrow> x \<le> of_int n)"

text \<open>\<^verbatim>\<open>col == True\<close>: a missing cell is not equal to \<open>True\<close>.\<close>

definition eq_True :: "bool option \<Rightarrow> bool" where
  "eq_True v = (case v of None \<Rightarrow> False | Some b \<Rightarrow> b)"

subsection \<open>Frames as objects\<close>

text \<open>
  A DataFrame is an object: the script's variables hold references. The heap is the list
  of frames allocated so far, a reference is a position in it. \<^verbatim>\<open>df.copy()\<close> and
  \<^verbatim>\<open>frame[mask]\<close> both build a new frame; an assignment rebinds a variable.
\<close>

record py_state =
  heap :: "table list"
  df :: nat
  filtered_df :: nat

definition init_state :: py_state where
  "init_state = \<lparr>heap = [], df = 0, filtered_df = 0\<rparr>"

definition new_frame :: "table \<Rightarrow> py_state \<Rightarrow> nat \<times> py_state" where
  "new_frame t s = (length (heap s), s\<lparr>heap := heap s @ [t]\<rparr>)"

text \<open>
  The frame behind a reference. The script never holds a reference outside the heap
  (\<open>script_refs_valid\<close> below), so the second branch is not taken in it.
\<close>

definition frame :: "py_state \<Rightarrow> nat \<Rightarrow> table" where
  "frame s r = (if r < length (heap s) then heap s ! r else [])"

text \<open>
  Line 41, \<^verbatim>\<open>df = load_data()\<close>. The argument is the table that
  \<^verbatim>\<open>pd.read_csv\<close> parsed from the file.
\<close>

definition load_data :: "table \<Rightarrow> py_state \<Rightarrow> py_state" where
  "load_data csv s = (case new_frame csv s of (r, s') \<Rightarrow> s'\<lparr>df := r\<rparr>)"

text \<open>Line 58, \<^verbatim>\<open>filtered_df = df.copy()\<close>.\<close>

definition copy :: "py_state \<Rightarrow> py_state" where
  "copy s = (case new_frame (frame s (df s)) s of (r, s') \<Rightarrow> s'\<lparr>filtered_df := r\<rparr>)"

text \<open>\<^verbatim>\<open>filtered_df = filtered_df[mask]\<close>: the rows where the mask holds, in order.\<close>

definition getitem :: "(listing \<Rightarrow> bool) \<Rightarrow> py_state \<Rightarrow> py_state" where
  "getitem keep s =
     (case new_frame (filter keep (frame s (filtered_df s))) s of
        (r, s') \<Rightarrow> s'\<lparr>filtered_df := r\<rparr>)"

text \<open>Lines 58-65.\<close>

definition apply_filters :: "criteria \<Rightarrow> py_state \<Rightarrow> py_state" where
  "apply_filters c s0 =
     (let s1 = copy s0;
          s2 = (if neighborhoods c \<noteq> []
                then getitem (\<lambda>r. isin (neighbourhood_cleansed r) (neighborhoods c)) s1
                else s1);
          s3 = (if room_types c \<noteq> []
                then getitem (\<lambda>r. isin (room_type r) (room_types c)) s2
                else s2);
          s4 = getitem (\<lambda>r. ge (price r) (min_price c) \<and> le (price r) (max_price c)) s3;
          s5 = (if superhost_filter c
                then getitem (\<lambda>r. eq_True (host_is_superhost r)) s4
                else s4)
      in s5)"

text \<open>The state after lines 41-65, and the frame \<^verbatim>\<open>filtered_df\<close> is bound to.\<close>

definition script :: "table \<Rightarrow> criteria \<Rightarrow> py_state" where
  "script csv c = apply_filters c (load_data csv init_state)"

definition filtered_table :: "table \<Rightarrow> criteria \<Rightarrow> table" where
  "filtered_table csv c = (let s = script csv c in frame s (filtered_df s))"

text \<open>
  The filter as the specification words it: one predicate per criterion, an empty
  selection or an unset flag being no restriction, all of them joined by AND.
\<close>

definition satisfies :: "criteria \<Rightarrow> listing \<Rightarrow> bool" where
  "satisfies c r \<longleftrightarrow>
     (neighborhoods c = [] \<or> neighbourhood_cleansed r \<in> set (neighborhoods c)) \<and>
     (room_types c = [] \<or> room_type r \<in> set (room_types c)) \<and>
     (\<exists>p. price r = Some p \<and> of_int (min_price c) \<le> p \<and> p \<le> of_int (max_price c)) \<and>
     (superhost_filter c \<longrightarrow> host_is_superhost r = Some True)"

subsection \<open>The price slider\<close>

datatype py_error = ValueError

text \<open>The present values of a column, in order (NaN dropped).\<close>

fun dropna :: "'a option list \<Rightarrow> 'a list" where
  "dropna [] = []"
| "dropna (None # vs) = dropna vs"
| "dropna (Some x # vs) = x # dropna vs"

text \<open>\<^verbatim>\<open>Series.max()\<close>: the largest present value, NaN when there is none.\<close>

definition series_max :: "rat option list \<Rightarrow> rat option" where
  "series_max vs = (case dropna vs of [] \<Rightarrow> None | x # xs \<Rightarrow> Some (fold max xs x))"

text \<open>\<^verbatim>\<open>int(x)\<close> on a float: truncation toward zero; NaN raises ValueError.\<close>

definition py_int :: "rat option \<Rightarrow> py_error + int" where
  "py_int v = (case v of None \<Rightarrow> Inl ValueError
               | Some x \<Rightarrow> Inr (if 0 \<le> x then \<lfloor>x\<rfloor> else \<lceil>x\<rceil>))"

text \<open>
  Line 55: the bounds handed to the slider, \<^verbatim>\<open>0\<close> and
  \<^verbatim>\<open>int(df['price'].max())\<close>. The widget returns a pair of integers; the full
  price range is the pair of these bounds.
\<close>

definition slider_bounds :: "table \<Rightarrow> py_error + int \<times> int" where
  "slider_bounds t =
     (case py_int (series_max (map price t)) of
        Inl e \<Rightarrow> Inl e
      | Inr hi \<Rightarrow> Inr (0, hi))"

text \<open>Nothing selected, the flag unset, and the price range from 0 to \<open>hi\<close>.\<close>

definition crit_all :: "int \<Rightarrow> criteria" where
  "crit_all hi = \<lparr>neighborhoods = [], room_types = [], min_price = 0,
                  max_price = hi, superhost_filter = False\<rparr>"

text \<open>\<^verbatim>\<open>fillna(False)\<close> on the superhost column (used only to state a comparison).\<close>

definition fillna_False :: "listing \<Rightarrow> listing" where
  "fillna_False r =
     r\<lparr>host_is_superhost :=
         (case host_is_superhost r of None \<Rightarrow> Some False | Some b \<Rightarrow> Some b)\<rparr>"

subsection \<open>Library values and routines\<close>

text \<open>A double that is not NaN: a rational or an infinity, in the order of the reals.\<close>

datatype float64 = NegInf | Finite rat | PosInf

instantiation float64 :: linorder
begin

fun less_eq_float64 :: "float64 \<Rightarrow> float64 \<Rightarrow> bool" where
  "less_eq_float64 NegInf y = True"
| "less_eq_float64 (Finite a) NegInf = False"
| "less_eq_float64 (Finite a) (Finite b) = (a \<le> b)"
| "less_eq_float64 (Finite a) PosInf = True"
| "less_eq_float64 PosInf NegInf = False"
| "less_eq_float64 PosInf (Finite b) = False"
| "less_eq_float64 PosInf PosInf = True"

definition less_float64 :: "float64 \<Rightarrow> float64 \<Rightarrow> bool" where
  "less_float64 x y \<longleftrightarrow> x \<le> y \<and> \<not> y \<le> x"

instance
proof
  fix x y z :: float64
  show "x < y \<longleftrightarrow> x \<le> y \<and> \<not> y \<le> x"
    by (simp add: less_float64_def)
  show "x \<le> x"
    by (cases x) simp_all
  show "x \<le> y \<Longrightarrow> y \<le> z \<Longrightarrow> x \<le> z"
    by (cases x; cases y; cases z) simp_all
  show "x \<le> y \<Longrightarrow> y \<le> x \<Longrightarrow> x = y"
    by (cases x; cases y) simp_all
  show "x \<le> y \<or> y \<le> x"
    by (cases x; cases y) auto
qed

end

text \<open>
  What the script reaches in numpy and pandas below the calls it writes, and whose
  result is fixed by the library build and the machine rather than by app.py:
  \<^item> \<open>lib_mean\<close>, the rounded mean behind \<^verbatim>\<open>Series.mean()\<close> of a non-empty array
    (\<open>None\<close> is NaN);
  \<^item> \<open>lib_group_mean\<close>, the same for \<^verbatim>\<open>groupby(...).mean()\<close>;
  \<^item> \<open>lib_argsort\<close>, \<^verbatim>\<open>ndarray.argsort(kind='quicksort')\<close>: the positions of the
    values in ascending order of value;
  \<^item> \<open>lib_float_text\<close>, the decimal text \<^verbatim>\<open>to_csv\<close> writes for a number;
  \<^item> \<open>lib_to_float\<close>, the number \<^verbatim>\<open>read_csv\<close> reads from a field, if it reads one.
\<close>

record library =
  lib_mean :: "rat list \<Rightarrow> float64 option"
  lib_group_mean :: "rat list \<Rightarrow> float64 option"
  lib_argsort :: "float64 list \<Rightarrow> nat list"
  lib_float_text :: "rat \<Rightarrow> string"
  lib_to_float :: "string \<Rightarrow> rat option"

text \<open>
  What numpy documents of argsort: the result is a rearrangement of the positions, and
  the values taken in that order ascend. The order of equal values is left open (the
  default kind is not a stable sort).
\<close>

definition argsorts :: "(float64 list \<Rightarrow> nat list) \<Rightarrow> bool" where
  "argsorts f \<longleftrightarrow>
     (\<forall>vs. mset (f vs) = mset [0..<length vs] \<and> sorted (map (\<lambda>i. vs ! i) (f vs)))"

subsection \<open>KPIs and grouped means\<close>

text \<open>
  \<^verbatim>\<open>Series.mean()\<close>: NaN is skipped; the mean of what is left, NaN when nothing is.
\<close>

definition series_mean :: "(rat list \<Rightarrow> float64 option) \<Rightarrow> rat option list \<Rightarrow> float64 option" where
  "series_mean mean vs = (case dropna vs of [] \<Rightarrow> None | x # xs \<Rightarrow> mean (x # xs))"





text \<open>A Series indexed by group key: the labels with their values, in index order.\<close>

type_synonym series = "(string \<times> float64 option) list"

text \<open>
  \<^verbatim>\<open>frame.groupby(key)[col].mean()\<close>: one entry per distinct key, the keys in
  ascending order (\<^verbatim>\<open>sort=True\<close> is the default), each with the mean of its rows.
\<close>

definition groupby_mean ::
  "library \<Rightarrow> (listing \<Rightarrow> string) \<Rightarrow> (listing \<Rightarrow> rat option) \<Rightarrow> table \<Rightarrow> series" where
  "groupby_mean L key col t =
     map (\<lambda>k. (k, series_mean (lib_group_mean L) (map col (filter (\<lambda>r. key r = k) t))))
         (sort (remdups (map key t)))"

text \<open>The entries whose value is present, in order, and positional indexing.\<close>

fun notna :: "('k \<times> 'v option) list \<Rightarrow> ('k \<times> 'v) list" where
  "notna [] = []"
| "notna ((k, None) # s) = notna s"
| "notna ((k, Some v) # s) = (k, v) # notna s"

definition at_positions :: "'a list \<Rightarrow> nat list \<Rightarrow> 'a list" where
  "at_positions xs ps = map (\<lambda>i. xs ! i) ps"

text \<open>
  \<^verbatim>\<open>Series.sort_values(ascending=...)\<close> with the default \<^verbatim>\<open>kind\<close> and
  \<^verbatim>\<open>na_position='last'\<close>, as pandas computes it: the present entries are taken in the
  order argsort gives for their values; for a descending sort they are reversed before
  and after; the NaN entries follow in their own order.
\<close>

definition sort_values :: "library \<Rightarrow> bool \<Rightarrow> series \<Rightarrow> series" where
  "sort_values L asc s =
     (let non_nans = notna s;
          by_value = (\<lambda>es. at_positions es (lib_argsort L (map snd es)));
          ordered = (if asc then by_value non_nans else rev (by_value (rev non_nans)))
      in map (\<lambda>(k, v). (k, Some v)) ordered @ filter (\<lambda>e. snd e = None) s)"

definition head :: "nat \<Rightarrow> 'a list \<Rightarrow> 'a list" where
  "head n xs = take n xs"

text \<open>Line 85.\<close>

definition top_neigh :: "library \<Rightarrow> table \<Rightarrow> series" where
  "top_neigh L t =
     head 10 (sort_values L False (groupby_mean L neighbourhood_cleansed price t))"

text \<open>Line 105.\<close>

definition top_avail :: "library \<Rightarrow> table \<Rightarrow> series" where
  "top_avail L t =
     head 10 (sort_values L False (groupby_mean L neighbourhood_cleansed availability_365 t))"

text \<open>Line 119.\<close>

definition avg_reviews :: "library \<Rightarrow> table \<Rightarrow> series" where
  "avg_reviews L t = sort_values L True (groupby_mean L room_type reviews_per_month t)"

text \<open>
  \<^verbatim>\<open>px.line(x=..., y=...)\<close> and \<^verbatim>\<open>px.area(x=..., y=...)\<close>. Plotly Express takes a
  sequence for a list of columns when none of its elements says otherwise, which is the
  case of an empty one, and raises ValueError when both \<open>x\<close> and \<open>y\<close> are such lists.
  The figure is kept as the data it plots.
\<close>

definition px_line :: "'a list \<Rightarrow> 'b list \<Rightarrow> py_error + 'a list \<times> 'b list" where
  "px_line x y = (if x = [] \<and> y = [] then Inl ValueError else Inr (x, y))"

definition px_area :: "'a list \<Rightarrow> 'b list \<Rightarrow> py_error + 'a list \<times> 'b list" where
  "px_area x y = (if x = [] \<and> y = [] then Inl ValueError else Inr (x, y))"

text \<open>
  Lines 85-123, the charts fed by a grouped mean, in the order the script runs them: an
  exception ends the run. The three charts the script draws from the frame itself
  (lines 93, 99, 113) lie between them and are not modelled.
\<close>

definition charts :: "library \<Rightarrow> table \<Rightarrow> py_error + series \<times> series \<times> series" where
  "charts L t =
     (let n = top_neigh L t in
      case px_line (map fst n) (map snd n) of
        Inl e \<Rightarrow> Inl e
      | Inr fig1 \<Rightarrow>
          (let a = top_avail L t in
           case px_area (map fst a) (map snd a) of
             Inl e \<Rightarrow> Inl e
           | Inr fig4 \<Rightarrow>
               (let r = avg_reviews L t in
                case px_line (map fst r) (map snd r) of
                  Inl e \<Rightarrow> Inl e
                | Inr fig \<Rightarrow> Inr (n, a, r))))"


text \<open>The present values do not decrease, and no NaN stands before a present value.\<close>

definition non_decreasing :: "float64 option list \<Rightarrow> bool" where
  "non_decreasing vs \<longleftrightarrow>
     sorted (dropna vs) \<and>
     (\<forall>i < length vs. \<forall>j < length vs. i < j \<and> vs ! i = None \<longrightarrow> vs ! j = None)"

definition non_increasing :: "float64 option list \<Rightarrow> bool" where
  "non_increasing vs \<longleftrightarrow>
     sorted (rev (dropna vs)) \<and>
     (\<forall>i < length vs. \<forall>j < length vs. i < j \<and> vs ! i = None \<longrightarrow> vs ! j = None)"

subsection \<open>The export and the reader\<close>

text \<open>
  Line 69, \<^verbatim>\<open>filtered_df.to_csv(index=False)\<close>, and \<^verbatim>\<open>pd.read_csv\<close> of line 39
  applied to what it wrote. A CSV file is taken as its header and its records, each
  record with the text of its fields: the quoting that carries a field through the bytes
  and back is the csv writer's and the tokenizer's, and \<^verbatim>\<open>encode('utf-8')\<close> leaves
  a byte string as it is. The columns are the nine the script reads.
\<close>

record csv_record =
  f_name :: string
  f_neighbourhood_cleansed :: string
  f_room_type :: string
  f_price :: string
  f_host_is_superhost :: string
  f_review_score_avg :: string
  f_availability_365 :: string
  f_cancellation_policy :: string
  f_reviews_per_month :: string

text \<open>A value in a frame the reader returns, with the type the reader gave its column.\<close>

datatype cell = Text string | Number rat | Boolean bool | Missing

record frame_row =
  c_name :: cell
  c_neighbourhood_cleansed :: cell
  c_room_type :: cell
  c_price :: cell
  c_host_is_superhost :: cell
  c_review_score_avg :: cell
  c_availability_365 :: cell
  c_cancellation_policy :: cell
  c_reviews_per_month :: cell

definition columns :: "string list" where
  "columns = [''name'', ''neighbourhood_cleansed'', ''room_type'',
     ''price'', ''host_is_superhost'', ''review_score_avg'',
     ''availability_365'', ''cancellation_policy'', ''reviews_per_month'']"

text \<open>
  \<^verbatim>\<open>to_csv\<close>: a string is written as it is, a number as its decimal text, a boolean
  as \<^verbatim>\<open>True\<close> or \<^verbatim>\<open>False\<close>, a missing value as the empty field.
\<close>

definition number_field :: "library \<Rightarrow> rat option \<Rightarrow> string" where
  "number_field L v = (case v of None \<Rightarrow> [] | Some q \<Rightarrow> lib_float_text L q)"

definition bool_field :: "bool option \<Rightarrow> string" where
  "bool_field v = (case v of None \<Rightarrow> [] | Some b \<Rightarrow> if b then ''True'' else ''False'')"

definition csv_line :: "library \<Rightarrow> listing \<Rightarrow> csv_record" where
  "csv_line L r =
     \<lparr>f_name = name r,
         f_neighbourhood_cleansed = neighbourhood_cleansed r,
         f_room_type = room_type r,
         f_price = number_field L (price r),
         f_host_is_superhost = bool_field (host_is_superhost r),
         f_review_score_avg = number_field L (review_score_avg r),
         f_availability_365 = number_field L (availability_365 r),
         f_cancellation_policy = cancellation_policy r,
         f_reviews_per_month = number_field L (reviews_per_month r)\<rparr>"

definition to_csv :: "library \<Rightarrow> table \<Rightarrow> string list \<times> csv_record list" where
  "to_csv L t = (columns, map (csv_line L) t)"

text \<open>
  \<^verbatim>\<open>read_csv\<close> with its defaults. A field that is one of \<^verbatim>\<open>na_values\<close> is
  missing. The type of a column is inferred from all its fields: numbers when every
  field that is not missing reads as a number; else booleans when every such field is
  one of the true or false values; else strings.
\<close>

definition na_values :: "string list" where
  "na_values = [[], ''#N/A'', ''#N/A N/A'', ''#NA'', ''-1.#IND'', ''-1.#QNAN'', ''-NaN'',
     ''-nan'', ''1.#IND'', ''1.#QNAN'', ''<NA>'', ''N/A'', ''NA'', ''NULL'', ''NaN'', ''None'',
     ''n/a'', ''nan'', ''null'']"

definition true_values :: "string list" where
  "true_values = [''True'', ''TRUE'', ''true'']"

definition false_values :: "string list" where
  "false_values = [''False'', ''FALSE'', ''false'']"

definition reads_numbers :: "library \<Rightarrow> string list \<Rightarrow> bool" where
  "reads_numbers L col \<longleftrightarrow> (\<forall>f \<in> set col. f \<in> set na_values \<or> lib_to_float L f \<noteq> None)"

definition reads_bools :: "string list \<Rightarrow> bool" where
  "reads_bools col \<longleftrightarrow>
     (\<forall>f \<in> set col. f \<in> set na_values \<or> f \<in> set true_values \<or> f \<in> set false_values)"

definition read_column :: "library \<Rightarrow> string list \<Rightarrow> string \<Rightarrow> cell" where
  "read_column L col f =
     (if f \<in> set na_values then Missing
      else if reads_numbers L col
        then (case lib_to_float L f of Some q \<Rightarrow> Number q | None \<Rightarrow> Missing)
      else if reads_bools col then Boolean (f \<in> set true_values)
      else Text f)"

definition read_csv ::
  "library \<Rightarrow> string list \<times> csv_record list \<Rightarrow> string list \<times> frame_row list" where
  "read_csv L file =
     (case file of (hdr, recs) \<Rightarrow>
        (hdr, map (\<lambda>r.
        \<lparr>c_name = read_column L (map f_name recs) (f_name r),
         c_neighbourhood_cleansed = read_column L (map f_neighbourhood_cleansed recs) (f_neighbourhood_cleansed r),
         c_room_type = read_column L (map f_room_type recs) (f_room_type r),
         c_price = read_column L (map f_price recs) (f_price r),
         c_host_is_superhost = read_column L (map f_host_is_superhost recs) (f_host_is_superhost r),
         c_review_score_avg = read_column L (map f_review_score_avg recs) (f_review_score_avg r),
         c_availability_365 = read_column L (map f_availability_365 recs) (f_availability_365 r),
         c_cancellation_policy = read_column L (map f_cancellation_policy recs) (f_cancellation_policy r),
         c_reviews_per_month = read_column L (map f_reviews_per_month recs) (f_reviews_per_month r)\<rparr>) recs))"








subsection \<open>A sample library\<close>

text \<open>
  One instance of the library's routines, to evaluate the definitions on given rows. The
  mean is the exact quotient (the double mean where no rounding occurs, as on the sample
  rows); argsort is an insertion sort of the positions by value, which is what numpy's
  default kind does on an array of at most 16 values; the text of a number is that of
  Python's \<^verbatim>\<open>repr\<close> for a non-negative double with at most one decimal digit, and
  the reader reads such texts.
\<close>

definition sample_mean :: "rat list \<Rightarrow> float64 option" where
  "sample_mean xs = Some (Finite (sum_list xs / of_nat (length xs)))"

definition sample_argsort :: "float64 list \<Rightarrow> nat list" where
  "sample_argsort vs = map snd (sort_key fst (zip vs [0..<length vs]))"

fun digits :: "nat \<Rightarrow> string" where
  "digits n =
     (if n < 10 then [''0123456789'' ! n]
      else digits (n div 10) @ [''0123456789'' ! (n mod 10)])"

definition sample_float_text :: "rat \<Rightarrow> string" where
  "sample_float_text q =
     digits (nat \<lfloor>q\<rfloor>) @ ''.'' @ digits (nat \<lfloor>(q - of_int \<lfloor>q\<rfloor>) * 10\<rfloor>)"

fun index_of :: "'a list \<Rightarrow> 'a \<Rightarrow> nat" where
  "index_of [] a = 0"
| "index_of (x # xs) a = (if x = a then 0 else Suc (index_of xs a))"

definition all_digits :: "string \<Rightarrow> bool" where
  "all_digits s \<longleftrightarrow> s \<noteq> [] \<and> (\<forall>c \<in> set s. c \<in> set ''0123456789'')"

definition digits_value :: "string \<Rightarrow> nat" where
  "digits_value s = foldl (\<lambda>n c. 10 * n + index_of ''0123456789'' c) 0 s"

definition sample_to_float :: "string \<Rightarrow> rat option" where
  "sample_to_float s =
     (let a = takeWhile (\<lambda>c. c \<noteq> CHR ''.'') s;
          b = dropWhile (\<lambda>c. c \<noteq> CHR ''.'') s
      in if \<not> all_digits a then None
         else if b = [] then Some (of_nat (digits_value a))
         else if all_digits (tl b)
           then Some (of_nat (digits_value a) + of_nat (digits_value (tl b)) / 10 ^ length (tl b))
         else None)"

definition sample_lib :: library where
  "sample_lib = \<lparr>lib_mean = sample_mean, lib_group_mean = sample_mean,
                  lib_argsort = sample_argsort, lib_float_text = sample_float_text,
                  lib_to_float = sample_to_float\<rparr>"

subsection \<open>Sample data\<close>

definition row_a :: listing where
  "row_a = \<lparr>name = ''Loft'', neighbourhood_cleansed = ''Belltown'',
            room_type = ''Entire home/apt'', price = Some 120,
            host_is_superhost = Some True, review_score_avg = Some 9,
            availability_365 = Some 200, cancellation_policy = ''strict'',
            reviews_per_month = Some 2\<rparr>"

definition row_b :: listing where
  "row_b = \<lparr>name = ''Room'', neighbourhood_cleansed = ''Adams'',
            room_type = ''Private room'', price = Some 1000,
            host_is_superhost = None, review_score_avg = None,
            availability_365 = Some 10, cancellation_policy = ''flexible'',
            reviews_per_month = None\<rparr>"

definition crit_a :: criteria where
  "crit_a = \<lparr>neighborhoods = [''Belltown''], room_types = [], min_price = 50,
             max_price = 500, superhost_filter = True\<rparr>"

definition row_c :: listing where
  "row_c = \<lparr>name = ''Villa'', neighbourhood_cleansed = ''Adams'',
            room_type = ''Entire home/apt'', price = Some (2001 / 2),
            host_is_superhost = Some False, review_score_avg = Some 8,
            availability_365 = Some 365, cancellation_policy = ''moderate'',
            reviews_per_month = Some 1\<rparr>"

definition row_d :: listing where
  "row_d = \<lparr>name = ''Studio'', neighbourhood_cleansed = ''Ballard'',
            room_type = ''Entire home/apt'', price = Some 120,
            host_is_superhost = Some False, review_score_avg = Some 7,
            availability_365 = Some 90, cancellation_policy = ''strict'',
            reviews_per_month = Some 3\<rparr>"

definition row_e :: listing where
  "row_e = \<lparr>name = ''Bunk'', neighbourhood_cleansed = ''Ballard'',
            room_type = ''Shared room'', price = None,
            host_is_superhost = Some True, review_score_avg = Some 6,
            availability_365 = None, cancellation_policy = ''flexible'',
            reviews_per_month = Some (1 / 2)\<rparr>"

text \<open>The table of the specification's scenario: A at 100 and 200, B at 50.\<close>

definition scenario_table :: table where
  "scenario_table =
     [row_a\<lparr>neighbourhood_cleansed := ''A'', price := Some 100\<rparr>,
      row_a\<lparr>neighbourhood_cleansed := ''A'', price := Some 200\<rparr>,
      row_a\<lparr>neighbourhood_cleansed := ''B'', price := Some 50\<rparr>]"



section \<open>The filter block\<close>

lemma frame_new_frame:
  "frame (snd (new_frame t s)) (fst (new_frame t s)) = t"
  by (simp add: new_frame_def frame_def)

lemma filtered_copy: "frame (copy s) (filtered_df (copy s)) = frame s (df s)"
  by (simp add: copy_def new_frame_def frame_def)

lemma filtered_getitem:
  "frame (getitem m s) (filtered_df (getitem m s)) = filter m (frame s (filtered_df s))"
  by (simp add: getitem_def new_frame_def frame_def)

lemma loaded_frame:
  "frame (load_data csv init_state) (df (load_data csv init_state)) = csv"
  by (simp add: load_data_def new_frame_def frame_def init_state_def)

lemma satisfies_masks:
  "satisfies c r \<longleftrightarrow>
     (neighborhoods c \<noteq> [] \<longrightarrow> isin (neighbourhood_cleansed r) (neighborhoods c)) \<and>
     (room_types c \<noteq> [] \<longrightarrow> isin (room_type r) (room_types c)) \<and>
     (ge (price r) (min_price c) \<and> le (price r) (max_price c)) \<and>
     (superhost_filter c \<longrightarrow> eq_True (host_is_superhost r))"
  by (cases "price r"; cases "host_is_superhost r")
     (auto simp: satisfies_def isin_def ge_def le_def eq_True_def)

text \<open>The script's frame is the table narrowed by the conjunction of the predicates.\<close>

lemma filtered_table_filter: "filtered_table csv c = filter (satisfies c) csv"
proof -
  have "filtered_table csv c =
        filter (\<lambda>r. superhost_filter c \<longrightarrow> eq_True (host_is_superhost r))
          (filter (\<lambda>r. ge (price r) (min_price c) \<and> le (price r) (max_price c))
            (filter (\<lambda>r. room_types c \<noteq> [] \<longrightarrow> isin (room_type r) (room_types c))
              (filter (\<lambda>r. neighborhoods c \<noteq> [] \<longrightarrow>
                           isin (neighbourhood_cleansed r) (neighborhoods c)) csv)))"
    by (simp add: filtered_table_def script_def apply_filters_def Let_def
        filtered_getitem filtered_copy loaded_frame)
  also have "\<dots> = filter (satisfies c) csv"
    unfolding filter_filter by (rule filter_cong) (auto simp: satisfies_masks)
  finally show ?thesis .
qed

text \<open>The facts that evaluate the filter on given rows.\<close>

lemmas filter_eval = filtered_table_filter satisfies_masks isin_def ge_def le_def eq_True_def

text \<open>A statement that builds a frame leaves every frame already on the heap as it was.\<close>

lemma frame_copy_old: "r < length (heap s) \<Longrightarrow> frame (copy s) r = frame s r"
  by (simp add: copy_def new_frame_def frame_def nth_append)

lemma frame_getitem_old: "r < length (heap s) \<Longrightarrow> frame (getitem m s) r = frame s r"
  by (simp add: getitem_def new_frame_def frame_def nth_append)

lemma heap_copy: "heap (copy s) = heap s @ [frame s (df s)]"
  by (simp add: copy_def new_frame_def)

lemma heap_getitem: "heap (getitem m s) = heap s @ [filter m (frame s (filtered_df s))]"
  by (simp add: getitem_def new_frame_def)

lemma df_copy: "df (copy s) = df s"
  by (simp add: copy_def new_frame_def)

lemma df_getitem: "df (getitem m s) = df s"
  by (simp add: getitem_def new_frame_def)

lemma filtered_df_copy: "filtered_df (copy s) = length (heap s)"
  by (simp add: copy_def new_frame_def)

lemma filtered_df_getitem: "filtered_df (getitem m s) = length (heap s)"
  by (simp add: getitem_def new_frame_def)

text \<open>
  C1. Every row of the filtered table is a row of the loaded table and passes every
  active predicate: its neighbourhood is selected (or nothing is selected), its room type
  is selected (or nothing is selected), its price lies between \<open>min_price\<close> and
  \<open>max_price\<close>, and it is a superhost row when the flag is set.
\<close>

theorem filtered_rows_satisfy:
  "set (filtered_table csv c) \<subseteq> set csv \<and>
   (\<forall>r \<in> set (filtered_table csv c).
      (neighbourhood_cleansed r \<in> set (neighborhoods c) \<or> neighborhoods c = []) \<and>
      (room_type r \<in> set (room_types c) \<or> room_types c = []) \<and>
      (\<exists>p. price r = Some p \<and> of_int (min_price c) \<le> p \<and> p \<le> of_int (max_price c)) \<and>
      (superhost_filter c \<longrightarrow> host_is_superhost r = Some True))"
  by (auto simp: filtered_table_filter satisfies_def)

theorem filtered_rows_satisfy_witness:
  "row_a \<in> set (filtered_table [row_a, row_b] crit_a) \<and>
   row_a \<in> set [row_a, row_b] \<and>
   neighbourhood_cleansed row_a \<in> set (neighborhoods crit_a) \<and>
   room_types crit_a = [] \<and>
   (\<exists>p. price row_a = Some p \<and> of_int (min_price crit_a) \<le> p \<and>
        p \<le> of_int (max_price crit_a)) \<and>
   host_is_superhost row_a = Some True"
proof -
  have "row_a \<in> set (filtered_table [row_a, row_b] crit_a)"
    by (simp add: filter_eval row_a_def row_b_def crit_a_def)
  with filtered_rows_satisfy [of "[row_a, row_b]" crit_a] show ?thesis
    by (auto simp: crit_a_def)
qed

text \<open>
  C4. Filtering is idempotent: filtering the filtered table again by the same criteria
  gives the filtered table.
\<close>

theorem filter_idempotent:
  "filtered_table (filtered_table csv c) c = filtered_table csv c"
  by (simp add: filtered_table_filter)

theorem filter_idempotent_witness:
  "filtered_table (filtered_table [row_a, row_b] crit_a) crit_a = [row_a]"
  using filter_idempotent [of "[row_a, row_b]" crit_a]
  by (simp add: filter_eval row_a_def row_b_def crit_a_def)

text \<open>
  C5. The rows of the filtered table stand in the order they have in the loaded table:
  the filtered table is a subsequence of it.
\<close>

theorem filter_keeps_order: "subseq (filtered_table csv c) csv"
  by (simp add: filtered_table_filter)

theorem filter_keeps_order_witness:
  "subseq [row_a, row_c] [row_a, row_b, row_c] \<and>
   filtered_table [row_a, row_b, row_c]
     (crit_all 2000\<lparr>room_types := [''Entire home/apt'']\<rparr>) = [row_a, row_c]"
proof -
  have "filtered_table [row_a, row_b, row_c]
          (crit_all 2000\<lparr>room_types := [''Entire home/apt'']\<rparr>) = [row_a, row_c]"
    by (simp add: filter_eval row_a_def row_b_def row_c_def
        crit_all_def)
  with filter_keeps_order [of "[row_a, row_b, row_c]"
      "crit_all 2000\<lparr>room_types := [''Entire home/apt'']\<rparr>"]
  show ?thesis by simp
qed

text \<open>
  C10. With the superhost flag set, a row is kept exactly when it passes the other
  predicates and its \<open>host_is_superhost\<close> cell equals \<open>True\<close>. A row whose cell is
  missing is dropped, and the result is the one obtained after filling the missing cells
  with \<open>False\<close>.
\<close>

theorem superhost_missing_excluded:
  assumes "superhost_filter c"
  shows "(\<forall>r \<in> set csv. host_is_superhost r = None \<longrightarrow> r \<notin> set (filtered_table csv c)) \<and>
         filtered_table csv c =
           filter (\<lambda>r. host_is_superhost r = Some True)
             (filtered_table csv (c\<lparr>superhost_filter := False\<rparr>)) \<and>
         filtered_table (map fillna_False csv) c = map fillna_False (filtered_table csv c)"
proof (intro conjI)
  show "\<forall>r \<in> set csv. host_is_superhost r = None \<longrightarrow> r \<notin> set (filtered_table csv c)"
    using assms by (auto simp: filtered_table_filter satisfies_def)
  show "filtered_table csv c =
          filter (\<lambda>r. host_is_superhost r = Some True)
            (filtered_table csv (c\<lparr>superhost_filter := False\<rparr>))"
    unfolding filtered_table_filter filter_filter
    using assms by (intro filter_cong) (auto simp: satisfies_def)
  have "satisfies c (fillna_False r) = satisfies c r" for r
    using assms by (auto simp: satisfies_def fillna_False_def split: option.splits)
  then show "filtered_table (map fillna_False csv) c =
               map fillna_False (filtered_table csv c)"
    by (simp add: filtered_table_filter filter_map comp_def)
qed

theorem superhost_missing_excluded_witness:
  "superhost_filter (crit_all 1000\<lparr>superhost_filter := True\<rparr>) \<and>
   host_is_superhost row_b = None \<and>
   row_b \<notin> set (filtered_table [row_a, row_b, row_c] (crit_all 1000\<lparr>superhost_filter := True\<rparr>)) \<and>
   filtered_table [row_a, row_b, row_c] (crit_all 1000\<lparr>superhost_filter := True\<rparr>) = [row_a]"
proof -
  have flag: "superhost_filter (crit_all 1000\<lparr>superhost_filter := True\<rparr>)"
    by simp
  have none: "host_is_superhost row_b = None"
    by (simp add: row_b_def)
  have out: "row_b \<notin> set (filtered_table [row_a, row_b, row_c]
                          (crit_all 1000\<lparr>superhost_filter := True\<rparr>))"
    using superhost_missing_excluded [OF flag, of "[row_a, row_b, row_c]"] none by simp
  have kept: "filtered_table [row_a, row_b, row_c]
                (crit_all 1000\<lparr>superhost_filter := True\<rparr>) = [row_a]"
    by (simp add: filter_eval row_a_def row_b_def row_c_def crit_all_def)
  show ?thesis
    by (intro conjI flag none out kept)
qed

text \<open>
  C9. After the script has run, the frame \<open>df\<close> is bound to is the table the loader
  returned: \<open>df\<close> is never rebound, \<open>filtered_df\<close> is bound to another frame, and the
  heap after the filter block is the heap after loading with new frames appended.
  Lines 69-123 only read \<open>filtered_df\<close> (\<^verbatim>\<open>to_csv\<close>, \<^verbatim>\<open>len\<close>,
  \<^verbatim>\<open>mean\<close>, \<^verbatim>\<open>groupby\<close>, \<^verbatim>\<open>unique\<close>, the plotting calls) and bind their
  results to other names; they are the functions of the rows given above and do not
  touch the heap.
\<close>

theorem loaded_table_unchanged:
  "frame (script csv c) (df (script csv c)) = csv \<and>
   df (script csv c) = df (load_data csv init_state) \<and>
   filtered_df (script csv c) \<noteq> df (script csv c) \<and>
   prefix (heap (load_data csv init_state)) (heap (script csv c))"
  by (simp add: script_def apply_filters_def Let_def load_data_def init_state_def
      heap_copy heap_getitem df_copy df_getitem filtered_df_copy filtered_df_getitem
      new_frame_def frame_def nth_append)

theorem loaded_table_unchanged_witness:
  "frame (script [row_a, row_b] crit_a) (df (script [row_a, row_b] crit_a)) = [row_a, row_b] \<and>
   frame (script [row_a, row_b] crit_a) (filtered_df (script [row_a, row_b] crit_a)) = [row_a]"
proof -
  have loaded: "frame (script [row_a, row_b] crit_a) (df (script [row_a, row_b] crit_a))
                  = [row_a, row_b]"
    using loaded_table_unchanged [of "[row_a, row_b]" crit_a] by (rule conjunct1)
  have "filtered_table [row_a, row_b] crit_a = [row_a]"
    by (simp add: filter_eval row_a_def row_b_def crit_a_def)
  then have narrowed: "frame (script [row_a, row_b] crit_a)
                         (filtered_df (script [row_a, row_b] crit_a)) = [row_a]"
    by (simp add: filtered_table_def Let_def)
  show ?thesis
    by (intro conjI loaded narrowed)
qed

text \<open>The references of the script's state point into the heap.\<close>

lemma script_refs_valid:
  "df (script csv c) < length (heap (script csv c)) \<and>
   filtered_df (script csv c) < length (heap (script csv c))"
  by (simp add: script_def apply_filters_def Let_def load_data_def init_state_def
      heap_copy heap_getitem df_copy df_getitem filtered_df_copy filtered_df_getitem
      new_frame_def)


section \<open>The price slider's full range\<close>

lemma set_dropna: "set (dropna vs) = {x. Some x \<in> set vs}"
  by (induction vs rule: dropna.induct) auto

lemma fold_max_ge: "y \<in> set (x # xs) \<Longrightarrow> y \<le> fold max xs (x::rat)"
  by (metis Max.set_eq_fold Max_ge List.finite_set)

text \<open>An empty table has no maximum price: \<^verbatim>\<open>int(nan)\<close> raises.\<close>

lemma slider_bounds_empty: "slider_bounds [] = Inl ValueError"
  by (simp add: slider_bounds_def series_max_def py_int_def)

text \<open>
  With nothing selected and the flag unset, the range from 0 to \<open>hi\<close> returns the loaded
  table exactly when every price is present and lies in that range.
\<close>

lemma full_range_covers:
  "filtered_table csv (crit_all hi) = csv \<longleftrightarrow>
     (\<forall>r \<in> set csv. \<exists>p. price r = Some p \<and> 0 \<le> p \<and> p \<le> of_int hi)"
  by (auto simp: filtered_table_filter filter_id_conv satisfies_def crit_all_def)

text \<open>
  So the slider's full range returns the loaded table when every price is present and
  not negative and the largest price is a whole number.
\<close>

lemma full_range_whole_maximum:
  assumes "\<forall>r \<in> set csv. \<exists>p. price r = Some p \<and> 0 \<le> p"
    and "series_max (map price csv) = Some m" and "of_int \<lfloor>m\<rfloor> = m"
  shows "slider_bounds csv = Inr (0, \<lfloor>m\<rfloor>) \<and> filtered_table csv (crit_all \<lfloor>m\<rfloor>) = csv"
proof -
  from assms(2) obtain x xs where dx: "dropna (map price csv) = x # xs"
    and m: "m = fold max xs x"
    by (auto simp: series_max_def split: list.splits)
  have le: "p \<le> m" if "r \<in> set csv" "price r = Some p" for r p
  proof -
    from that have "p \<in> set (x # xs)"
      unfolding dx [symmetric] by (force simp: set_dropna)
    then show ?thesis
      unfolding m by (rule fold_max_ge)
  qed
  have "x \<in> set (dropna (map price csv))"
    by (simp add: dx)
  then obtain r where r: "r \<in> set csv" "price r = Some x"
    by (auto simp: set_dropna)
  with assms(1) have "0 \<le> x" by force
  with le [OF r] have "0 \<le> m" by simp
  then have "slider_bounds csv = Inr (0, \<lfloor>m\<rfloor>)"
    using assms(2) by (simp add: slider_bounds_def py_int_def)
  moreover have "\<exists>p. price r' = Some p \<and> 0 \<le> p \<and> p \<le> of_int \<lfloor>m\<rfloor>" if "r' \<in> set csv" for r'
    using that assms(1) le unfolding assms(3) by blast
  then have "filtered_table csv (crit_all \<lfloor>m\<rfloor>) = csv"
    by (simp add: full_range_covers)
  ultimately show ?thesis ..
qed

text \<open>
  C2. With nothing selected, the flag unset and the slider at its full range, the
  filtered table should be the loaded table. The script does not deliver this: the
  slider's upper bound is \<^verbatim>\<open>int(df['price'].max())\<close>, which cuts the fraction off
  the largest price. On prices 120 and 1000.5 the bounds are 0 and 1000, and the filter
  at that range keeps the first row only.
\<close>

theorem full_range_truncates:
  "slider_bounds [row_a, row_c] = Inr (0, 1000) \<and>
   filtered_table [row_a, row_c] (crit_all 1000) = [row_a] \<and>
   filtered_table [row_a, row_c] (crit_all 1000) \<noteq> [row_a, row_c]"
  by (simp add: filter_eval slider_bounds_def series_max_def py_int_def
      row_a_def row_c_def crit_all_def floor_eq_iff)

section \<open>Sorting and grouping\<close>

lemma argsorts_positions:
  assumes "argsorts f" and "i \<in> set (f vs)"
  shows "i < length vs"
proof -
  from assms(1) have "set (f vs) = set [0..<length vs]"
    unfolding argsorts_def by (metis mset_eq_setD)
  with assms(2) show ?thesis by simp
qed

lemma at_positions_mset:
  assumes "argsorts f"
  shows "mset (at_positions es (f (map snd es))) = mset es"
proof -
  from assms have "mset (f (map snd es)) = mset [0..<length es]"
    unfolding argsorts_def by (metis length_map)
  then have "mset (map (\<lambda>i. es ! i) (f (map snd es))) = mset (map (\<lambda>i. es ! i) [0..<length es])"
    by (metis mset_map)
  then show ?thesis
    by (simp add: at_positions_def map_nth)
qed

lemma at_positions_sorted:
  assumes "argsorts f"
  shows "sorted (map snd (at_positions es (f (map snd es))))"
proof -
  have "map snd (at_positions es (f (map snd es)))
          = map (\<lambda>i. map snd es ! i) (f (map snd es))"
    using argsorts_positions [OF assms, of _ "map snd es"]
    by (simp add: at_positions_def)
  moreover from assms have "sorted (map (\<lambda>i. map snd es ! i) (f (map snd es)))"
    unfolding argsorts_def by blast
  ultimately show ?thesis by simp
qed

lemma notna_mset:
  "mset (map (\<lambda>(k, v). (k, Some v)) (notna s)) + mset (filter (\<lambda>e. snd e = None) s) = mset s"
  by (induction s rule: notna.induct) auto

lemma sort_values_mset:
  assumes "argsorts (lib_argsort L)"
  shows "mset (sort_values L asc s) = mset s"
proof -
  have "mset (if asc then at_positions (notna s) (lib_argsort L (map snd (notna s)))
              else rev (at_positions (rev (notna s)) (lib_argsort L (map snd (rev (notna s))))))
        = mset (notna s)"
    using at_positions_mset [OF assms, of "notna s"] at_positions_mset [OF assms, of "rev (notna s)"]
    by simp
  then have "mset (sort_values L asc s)
        = mset (map (\<lambda>(k, v). (k, Some v)) (notna s)) + mset (filter (\<lambda>e. snd e = None) s)"
    unfolding sort_values_def Let_def by (simp only: mset_append mset_map)
  then show ?thesis
    by (simp only: notna_mset)
qed

lemma dropna_append: "dropna (xs @ ys) = dropna xs @ dropna ys"
  by (induction xs rule: dropna.induct) simp_all

lemma dropna_Some: "dropna (map Some xs) = xs"
  by (induction xs) simp_all

lemma dropna_None: "\<forall>y \<in> set ys. y = None \<Longrightarrow> dropna ys = []"
  by (induction ys rule: dropna.induct) simp_all

lemma nan_last_append:
  assumes "\<forall>y \<in> set ys. y = None"
  shows "\<forall>i < length (map Some xs @ ys). \<forall>j < length (map Some xs @ ys).
           i < j \<and> (map Some xs @ ys) ! i = None \<longrightarrow> (map Some xs @ ys) ! j = None"
proof (intro allI impI)
  fix i j
  assume i: "i < length (map Some xs @ ys)" and j: "j < length (map Some xs @ ys)"
    and ij: "i < j \<and> (map Some xs @ ys) ! i = None"
  have "\<not> i < length xs"
  proof
    assume "i < length xs"
    then have "(map Some xs @ ys) ! i = Some (xs ! i)"
      by (simp add: nth_append)
    with ij show False by simp
  qed
  with ij have "\<not> j < length xs" by simp
  with j have "(map Some xs @ ys) ! j \<in> set ys"
    by (simp add: nth_append)
  with assms show "(map Some xs @ ys) ! j = None" by blast
qed

lemma sort_values_values:
  "\<exists>ys. (\<forall>y \<in> set ys. y = None) \<and>
     map snd (sort_values L asc s) =
       map Some (map snd (if asc then at_positions (notna s) (lib_argsort L (map snd (notna s)))
                          else rev (at_positions (rev (notna s))
                                      (lib_argsort L (map snd (rev (notna s))))))) @ ys"
proof -
  have "map snd (map (\<lambda>(k, v). (k, Some v)) es) = map Some (map snd es)"
    for es :: "(string \<times> float64) list"
    by (induction es) auto
  then have "map snd (sort_values L asc s) =
       map Some (map snd (if asc then at_positions (notna s) (lib_argsort L (map snd (notna s)))
                          else rev (at_positions (rev (notna s))
                                      (lib_argsort L (map snd (rev (notna s))))))) @
       map snd (filter (\<lambda>e. snd e = None) s)"
    unfolding sort_values_def Let_def by (simp only: map_append)
  moreover have "\<forall>y \<in> set (map snd (filter (\<lambda>e. snd e = None) s)). y = None"
    by auto
  ultimately show ?thesis by blast
qed

lemma sort_values_ascending:
  assumes "argsorts (lib_argsort L)"
  shows "non_decreasing (map snd (sort_values L True s))"
proof -
  let ?xs = "map snd (at_positions (notna s) (lib_argsort L (map snd (notna s))))"
  from sort_values_values [of L True s] obtain ys
    where ys: "\<forall>y \<in> set ys. y = None"
      and vs: "map snd (sort_values L True s) = map Some ?xs @ ys"
    by auto
  have "sorted ?xs"
    by (rule at_positions_sorted [OF assms])
  then have "sorted (dropna (map Some ?xs @ ys))"
    by (simp only: dropna_append dropna_Some dropna_None [OF ys] append_Nil2)
  then show ?thesis
    unfolding non_decreasing_def vs using nan_last_append [OF ys, of ?xs] by (rule conjI)
qed

lemma sort_values_descending:
  assumes "argsorts (lib_argsort L)"
  shows "non_increasing (map snd (sort_values L False s))"
proof -
  let ?xs = "map snd (rev (at_positions (rev (notna s))
                             (lib_argsort L (map snd (rev (notna s))))))"
  from sort_values_values [of L False s] obtain ys
    where ys: "\<forall>y \<in> set ys. y = None"
      and vs: "map snd (sort_values L False s) = map Some ?xs @ ys"
    by auto
  have "sorted (rev ?xs)"
    using at_positions_sorted [OF assms, of "rev (notna s)"] by (simp add: rev_map)
  then have "sorted (rev (dropna (map Some ?xs @ ys)))"
    by (simp only: dropna_append dropna_Some dropna_None [OF ys] append_Nil2)
  then show ?thesis
    unfolding non_increasing_def vs using nan_last_append [OF ys, of ?xs] by (rule conjI)
qed



lemma sort_values_length:
  "argsorts (lib_argsort L) \<Longrightarrow> length (sort_values L asc s) = length s"
  by (metis sort_values_mset mset_eq_length)

lemma groupby_mean_entry:
  "(k, m) \<in> set (groupby_mean L key col t) \<longleftrightarrow>
     k \<in> key ` set t \<and>
     m = series_mean (lib_group_mean L) (map col (filter (\<lambda>r. key r = k) t))"
  by (auto simp: groupby_mean_def)

lemma groupby_mean_keys: "map fst (groupby_mean L key col t) = sort (remdups (map key t))"
  by (simp add: groupby_mean_def comp_def)


lemma groupby_mean_nonempty:
  assumes "t \<noteq> []"
  shows "groupby_mean L key col t \<noteq> []"
proof -
  have "set (map fst (groupby_mean L key col t)) = key ` set t"
    by (simp add: groupby_mean_keys)
  with assms show ?thesis by auto
qed

text \<open>The sample argsort is an argsort.\<close>

lemma sample_argsorts: "argsorts sample_argsort"
  unfolding argsorts_def
proof (intro allI conjI)
  fix vs :: "float64 list"
  let ?z = "zip vs [0..<length vs]"
  have "mset (sample_argsort vs) = mset (map snd ?z)"
    unfolding sample_argsort_def by (metis mset_map mset_sort)
  then show "mset (sample_argsort vs) = mset [0..<length vs]"
    by simp
  have "\<forall>p \<in> set (sort_key fst ?z). vs ! snd p = fst p"
    by (auto simp: set_zip)
  then have "map (\<lambda>i. vs ! i) (sample_argsort vs) = map fst (sort_key fst ?z)"
    by (simp add: sample_argsort_def)
  then show "sorted (map (\<lambda>i. vs ! i) (sample_argsort vs))"
    by (simp add: sorted_sort_key)
qed

lemma sample_lib_argsorts: "argsorts (lib_argsort sample_lib)"
  by (simp add: sample_lib_def sample_argsorts)

text \<open>A prefix of a non-increasing series is non-increasing.\<close>

lemma dropna_take: "\<exists>m. dropna (take n vs) = take m (dropna vs)"
proof (induction vs arbitrary: n rule: dropna.induct)
  case 1
  then show ?case by simp
next
  case (2 vs)
  show ?case
  proof (cases n)
    case 0
    then show ?thesis by (simp add: exI [of _ 0])
  next
    case (Suc k)
    with 2 [of k] show ?thesis by simp
  qed
next
  case (3 x vs)
  show ?case
  proof (cases n)
    case 0
    then show ?thesis by (simp add: exI [of _ 0])
  next
    case (Suc k)
    from 3 [of k] obtain m where "dropna (take k vs) = take m (dropna vs)" ..
    with Suc have "dropna (take n (Some x # vs)) = take (Suc m) (dropna (Some x # vs))"
      by simp
    then show ?thesis ..
  qed
qed

lemma non_increasing_take:
  assumes "non_increasing vs"
  shows "non_increasing (take n vs)"
proof -
  from dropna_take obtain m where m: "dropna (take n vs) = take m (dropna vs)" ..
  from assms have "sorted (rev (dropna vs))"
    by (simp add: non_increasing_def)
  then have "sorted (drop (length (dropna vs) - m) (rev (dropna vs)))"
    by (rule sorted_wrt_drop)
  then have "sorted (rev (dropna (take n vs)))"
    by (simp add: m rev_take)
  moreover from assms
  have "\<forall>i < length (take n vs). \<forall>j < length (take n vs).
          i < j \<and> take n vs ! i = None \<longrightarrow> take n vs ! j = None"
    by (auto simp: non_increasing_def)
  ultimately show ?thesis
    unfolding non_increasing_def by (rule conjI)
qed

text \<open>
  Line 85 gives at most ten entries, each a neighbourhood of the table with the mean of
  its prices, in an order in which the means do not increase.
\<close>

lemma top_neigh_order:
  assumes "argsorts (lib_argsort L)"
  shows "length (top_neigh L t) \<le> 10 \<and>
         non_increasing (map snd (top_neigh L t)) \<and>
         set (top_neigh L t) \<subseteq> set (groupby_mean L neighbourhood_cleansed price t)"
proof (intro conjI)
  let ?g = "groupby_mean L neighbourhood_cleansed price t"
  show "length (top_neigh L t) \<le> 10"
    by (simp add: top_neigh_def head_def)
  have "non_increasing (take 10 (map snd (sort_values L False ?g)))"
    by (rule non_increasing_take [OF sort_values_descending [OF assms]])
  then show "non_increasing (map snd (top_neigh L t))"
    by (simp add: top_neigh_def head_def take_map)
  have "set (sort_values L False ?g) = set ?g"
    by (rule mset_eq_setD [OF sort_values_mset [OF assms]])
  then show "set (top_neigh L t) \<subseteq> set ?g"
    unfolding top_neigh_def head_def by (metis set_take_subset)
qed

text \<open>
  The specification's scenario: on A at 100 and 200 and B at 50, line 85 yields A with
  150, then B with 50.
\<close>

lemma top_neigh_scenario:
  "top_neigh sample_lib scenario_table =
     [(''A'', Some (Finite 150)), (''B'', Some (Finite 50))]"
  by code_simp

lemma avg_reviews_sample:
  "avg_reviews sample_lib [row_a, row_b, row_c, row_e] =
     [(''Shared room'', Some (Finite (1 / 2))), (''Entire home/apt'', Some (Finite (3 / 2))),
      (''Private room'', None)]"
  by code_simp

text \<open>
  C8. For every table, and whatever order the library's argsort leaves equal values in
  (it is only taken to return the positions in ascending order of value),
  \<open>avg_reviews\<close> lists every room type of the table once, each with the mean of the
  \<open>reviews_per_month\<close> values of its rows (NaN when it has none), and the means are in
  ascending order, a NaN mean last.
\<close>

theorem avg_reviews_sorted_means:
  assumes "argsorts (lib_argsort L)"
  shows "non_decreasing (map snd (avg_reviews L t)) \<and>
         mset (map fst (avg_reviews L t)) = mset (remdups (map room_type t)) \<and>
         (\<forall>(k, m) \<in> set (avg_reviews L t).
            m = (case dropna (map reviews_per_month (filter (\<lambda>r. room_type r = k) t)) of
                   [] \<Rightarrow> None
                 | x # xs \<Rightarrow> lib_group_mean L (x # xs)))"
proof (intro conjI)
  let ?g = "groupby_mean L room_type reviews_per_month t"
  show "non_decreasing (map snd (avg_reviews L t))"
    unfolding avg_reviews_def by (rule sort_values_ascending [OF assms])
  have m: "mset (avg_reviews L t) = mset ?g"
    unfolding avg_reviews_def by (rule sort_values_mset [OF assms])
  then have "mset (map fst (avg_reviews L t)) = mset (map fst ?g)"
    by (metis mset_map)
  then show "mset (map fst (avg_reviews L t)) = mset (remdups (map room_type t))"
    by (simp add: groupby_mean_keys)
  from m have "set (avg_reviews L t) = set ?g"
    by (rule mset_eq_setD)
  then show "\<forall>(k, m) \<in> set (avg_reviews L t).
            m = (case dropna (map reviews_per_month (filter (\<lambda>r. room_type r = k) t)) of
                   [] \<Rightarrow> None
                 | x # xs \<Rightarrow> lib_group_mean L (x # xs))"
    by (auto simp: groupby_mean_entry series_mean_def)
qed

theorem avg_reviews_sorted_means_witness:
  "argsorts (lib_argsort sample_lib) \<and>
   avg_reviews sample_lib [row_a, row_b, row_c, row_e] =
     [(''Shared room'', Some (Finite (1 / 2))), (''Entire home/apt'', Some (Finite (3 / 2))),
      (''Private room'', None)] \<and>
   non_decreasing [Some (Finite (1 / 2)), Some (Finite (3 / 2)), None]"
proof -
  from avg_reviews_sorted_means [OF sample_lib_argsorts, of "[row_a, row_b, row_c, row_e]"]
  have "non_decreasing (map snd (avg_reviews sample_lib [row_a, row_b, row_c, row_e]))"
    by (rule conjunct1)
  then have "non_decreasing [Some (Finite (1 / 2)), Some (Finite (3 / 2)), None]"
    by (simp add: avg_reviews_sample)
  with sample_lib_argsorts avg_reviews_sample show ?thesis
    by (intro conjI)
qed

section \<open>The charts on an empty filtered table\<close>


lemma charts_nonempty:
  assumes "argsorts (lib_argsort L)" and "t \<noteq> []"
  shows "charts L t = Inr (top_neigh L t, top_avail L t, avg_reviews L t)"
proof -
  have ne: "sort_values L asc (groupby_mean L key col t) \<noteq> []" for asc key col
    using sort_values_length [OF assms(1), of asc "groupby_mean L key col t"]
      groupby_mean_nonempty [OF assms(2), of L key col]
    by auto
  have "top_neigh L t \<noteq> []" "top_avail L t \<noteq> []" "avg_reviews L t \<noteq> []"
    using ne by (simp_all add: top_neigh_def top_avail_def avg_reviews_def head_def)
  then show ?thesis
    by (simp add: charts_def px_line_def px_area_def)
qed


section \<open>Export and parse\<close>






text \<open>
  A name of digits alone in its column is read back as a number, whatever else the
  library does, as soon as it reads the digits as a number.
\<close>

lemma digits_name_reread:
  assumes "name r \<notin> set na_values" and "lib_to_float L (name r) = Some q"
  shows "map c_name (snd (read_csv L (to_csv L [r]))) = [Number q]"
  using assms
  by (simp add: read_csv_def to_csv_def csv_line_def read_column_def reads_numbers_def)




end
